theory Spec2Isabelle
  imports Complex_Main "HOL-Library.Log_Nat"
begin

section \<open>JavaScript numbers\<close>

text \<open>
  The component computes with JavaScript numbers, the doubles of IEEE 754. A finite
  double is modelled by the rational it denotes; the result of an arithmetic operation
  is the exact result rounded to 53 significant bits, a tie to the even significand.
  The exponent is not bounded: a time value is an integer of magnitude at most 8.64e15
  (the range of \<^verbatim>\<open>Date\<close>), and what the component computes from time values stays far
  from the overflow and underflow thresholds. The negative zero is identified with
  zero: no comparison of the program tells them apart, and the only divisor of the
  program that can be zero, a difference of two time values, is the positive zero.
\<close>

text \<open>The binary exponent of a rational that is not zero: the floor of its logarithm.\<close>

definition ilog2 :: "rat \<Rightarrow> int" where
  "ilog2 x =
     (let (p, q) = quotient_of \<bar>x\<bar>;
          d = bitlen p - bitlen q
      in if 2 powi d \<le> \<bar>x\<bar> then d else d - 1)"

definition round_half_even :: "rat \<Rightarrow> int" where
  "round_half_even z =
     (let f = \<lfloor>z\<rfloor>; r = z - of_int f
      in if r < 1 / 2 then f
         else if 1 / 2 < r then f + 1
         else if even f then f else f + 1)"

definition double :: "rat \<Rightarrow> rat" where
  "double x =
     (if x = 0 then 0
      else let q = 2 powi (ilog2 x - 52)
           in of_int (round_half_even (x / q)) * q)"

datatype jsnum = Num rat | PosInf | NegInf | NaN

fun js_neg :: "jsnum \<Rightarrow> jsnum" where
  "js_neg (Num x) = Num (- x)"
| "js_neg PosInf = NegInf"
| "js_neg NegInf = PosInf"
| "js_neg NaN = NaN"

text \<open>The sign of a number that is not NaN; zero counts as positive.\<close>

fun js_nonneg :: "jsnum \<Rightarrow> bool" where
  "js_nonneg (Num x) = (0 \<le> x)"
| "js_nonneg PosInf = True"
| "js_nonneg NegInf = False"
| "js_nonneg NaN = False"

definition js_add :: "jsnum \<Rightarrow> jsnum \<Rightarrow> jsnum" where
  "js_add a b =
     (if a = NaN \<or> b = NaN then NaN
      else case (a, b) of
        (Num x, Num y) \<Rightarrow> Num (double (x + y))
      | (Num x, _) \<Rightarrow> b
      | (_, Num y) \<Rightarrow> a
      | (_, _) \<Rightarrow> (if a = b then a else NaN))"

definition js_sub :: "jsnum \<Rightarrow> jsnum \<Rightarrow> jsnum" where
  "js_sub a b = js_add a (js_neg b)"

definition js_mul :: "jsnum \<Rightarrow> jsnum \<Rightarrow> jsnum" where
  "js_mul a b =
     (if a = NaN \<or> b = NaN then NaN
      else case (a, b) of
        (Num x, Num y) \<Rightarrow> Num (double (x * y))
      | (_, _) \<Rightarrow>
          (if a = Num 0 \<or> b = Num 0 then NaN
           else if js_nonneg a = js_nonneg b then PosInf else NegInf))"

definition js_div :: "jsnum \<Rightarrow> jsnum \<Rightarrow> jsnum" where
  "js_div a b =
     (if a = NaN \<or> b = NaN then NaN
      else case (a, b) of
        (Num x, Num y) \<Rightarrow>
          (if y = 0 then (if x = 0 then NaN else if 0 < x then PosInf else NegInf)
           else Num (double (x / y)))
      | (Num x, _) \<Rightarrow> Num 0
      | (_, Num y) \<Rightarrow> (if js_nonneg a = js_nonneg b then PosInf else NegInf)
      | (_, _) \<Rightarrow> NaN)"

text \<open>
  \<^verbatim>\<open>Math.round\<close> rounds to the nearest integer, a tie towards plus infinity, which is
  \<^term>\<open>round\<close> of HOL (the floor of \<open>x + 1/2\<close>); it returns NaN and the infinities as
  they are.
\<close>

fun Math_round :: "jsnum \<Rightarrow> jsnum" where
  "Math_round (Num x) = Num (of_int (round x))"
| "Math_round PosInf = PosInf"
| "Math_round NegInf = NegInf"
| "Math_round NaN = NaN"

fun Math_abs :: "jsnum \<Rightarrow> jsnum" where
  "Math_abs (Num x) = Num \<bar>x\<bar>"
| "Math_abs PosInf = PosInf"
| "Math_abs NegInf = PosInf"
| "Math_abs NaN = NaN"

text \<open>\<^verbatim>\<open>Number.isFinite\<close>: neither NaN nor an infinity.\<close>

fun Number_isFinite :: "jsnum \<Rightarrow> bool" where
  "Number_isFinite (Num x) = True"
| "Number_isFinite PosInf = False"
| "Number_isFinite NegInf = False"
| "Number_isFinite NaN = False"

text \<open>The relational operators: every comparison with NaN is false.\<close>

fun js_lt :: "jsnum \<Rightarrow> jsnum \<Rightarrow> bool" where
  "js_lt NaN b = False"
| "js_lt a NaN = False"
| "js_lt (Num x) (Num y) = (x < y)"
| "js_lt a PosInf = (a \<noteq> PosInf)"
| "js_lt NegInf b = (b \<noteq> NegInf)"
| "js_lt a b = False"

fun js_le :: "jsnum \<Rightarrow> jsnum \<Rightarrow> bool" where
  "js_le NaN b = False"
| "js_le a NaN = False"
| "js_le (Num x) (Num y) = (x \<le> y)"
| "js_le a PosInf = True"
| "js_le NegInf b = True"
| "js_le a b = False"

definition js_gt :: "jsnum \<Rightarrow> jsnum \<Rightarrow> bool" where
  "js_gt a b = js_lt b a"

definition js_ge :: "jsnum \<Rightarrow> jsnum \<Rightarrow> bool" where
  "js_ge a b = js_le b a"

section \<open>The data of the component\<close>

text \<open>
  Modelled from the spec: the interface \<^verbatim>\<open>BusData\<close> of \<^verbatim>\<open>services/busService\<close> is not
  among the sources. Its timestamps are serialized instants (strings);
  \<^verbatim>\<open>expectedDeparture\<close> is optional, and \<^verbatim>\<open>scheduledDeparture\<close> is optional here too,
  since \<^verbatim>\<open>getCurrentDelay\<close> tests it. \<open>None\<close> is \<^verbatim>\<open>undefined\<close>.
\<close>

record BusData =
  id_of :: string
  routeNumber :: string
  scheduledDeparture :: "string option"
  expectedDeparture :: "string option"
  scheduledArrival :: string
  origin :: string
  destination :: string
  direction :: string
  operator :: string
  vehicleId :: string
  recordedAt :: string

datatype prediction = early | late

record BetRequest =
  busId :: string
  amount :: jsnum
  prediction :: prediction
  betRouteNumber :: string

text \<open>
  Modelled from the spec: the store \<^verbatim>\<open>store/userStore\<close> is not among the sources. It
  holds the balance and the wagers, each keyed by the identity of a record and carrying
  a resolved flag; its operation \<^verbatim>\<open>placeBet\<close> is a parameter of the handler below.
\<close>

record Bet = BetRequest +
  resolved :: bool

record UserStore =
  balance :: jsnum
  bets :: "Bet list"

record Toast =
  title :: string
  description :: "jsnum \<times> string \<times> prediction"

text \<open>
  What the component reads and writes outside itself: the wall clock (milliseconds since
  the epoch, what \<^verbatim>\<open>new Date().getTime()\<close> returns), the store, the calls of
  \<^verbatim>\<open>placeBet\<close> made so far and the notifications emitted so far.
\<close>

record World =
  clock :: int
  userStore :: UserStore
  placeBetCalls :: "BetRequest list"
  toasts :: "Toast list"

section \<open>Dates\<close>

text \<open>
  Parsing a date string is the host's \<^verbatim>\<open>Date\<close>; it is a parameter \<open>P\<close> of the model,
  \<open>None\<close> for a string that gives an invalid date. \<^verbatim>\<open>new Date(v).getTime()\<close> is the
  time value, NaN for an invalid date and for \<^verbatim>\<open>undefined\<close>.
\<close>

type_synonym parser = "string \<Rightarrow> int option"

definition Date_getTime :: "parser \<Rightarrow> string option \<Rightarrow> jsnum" where
  "Date_getTime P v =
     (case v of
        None \<Rightarrow> NaN
      | Some s \<Rightarrow> (case P s of None \<Rightarrow> NaN | Some t \<Rightarrow> Num (of_int t)))"

definition Date_now :: "World \<Rightarrow> jsnum" where
  "Date_now w = Num (of_int (clock w))"

text \<open>A string is truthy unless it is empty; \<^verbatim>\<open>undefined\<close> is falsy.\<close>

definition truthy :: "string option \<Rightarrow> bool" where
  "truthy v = (case v of None \<Rightarrow> False | Some s \<Rightarrow> s \<noteq> [])"

definition js_or :: "string option \<Rightarrow> string option \<Rightarrow> string option" where
  "js_or a b = (if truthy a then a else b)"

section \<open>The functions of BusCard\<close>

definition departureTime :: "BusData \<Rightarrow> string option" where
  "departureTime bus = js_or (expectedDeparture bus) (scheduledDeparture bus)"

definition isActiveBus :: "parser \<Rightarrow> BusData \<Rightarrow> World \<Rightarrow> bool" where
  "isActiveBus P bus w =
     (let now = Date_now w;
          departure = Date_getTime P (departureTime bus);
          arrival = Date_getTime P (Some (scheduledArrival bus))
      in js_le departure now \<and> js_le now arrival)"

definition getCurrentDelay :: "parser \<Rightarrow> BusData \<Rightarrow> World \<Rightarrow> jsnum option" where
  "getCurrentDelay P bus w =
     (if \<not> truthy (expectedDeparture bus) \<or> \<not> truthy (scheduledDeparture bus) then None
      else
        let now = Date_now w;
            currentExpected = Date_getTime P (expectedDeparture bus);
            currentScheduled = Date_getTime P (scheduledDeparture bus);
            totalJourneyTime =
              js_sub (Date_getTime P (Some (scheduledArrival bus)))
                     (Date_getTime P (scheduledDeparture bus));
            timeElapsed = js_sub now (Date_getTime P (scheduledDeparture bus));
            journeyProportion = js_div timeElapsed totalJourneyTime;
            delay = js_sub currentExpected currentScheduled
        in Some (Math_round (js_div (js_mul delay journeyProportion)
                                    (js_mul (Num 1000) (Num 60)))))"

text \<open>
  The badge that \<^verbatim>\<open>renderDelay\<close> returns: its variant and its text, the number of the
  text kept as a number.
\<close>

datatype variant = variant_outline | variant_destructive | variant_default

datatype label = On_Time | mins_behind jsnum | mins_ahead jsnum

datatype Badge = Badge variant label

definition renderDelay :: "parser \<Rightarrow> BusData \<Rightarrow> World \<Rightarrow> Badge option" where
  "renderDelay P bus w =
     (let delay = getCurrentDelay P bus w
      in case delay of
           None \<Rightarrow> None
         | Some d \<Rightarrow>
             if js_lt (Math_abs d) (Num 1) then Some (Badge variant_outline On_Time)
             else if js_gt d (Num 0) then Some (Badge variant_destructive (mins_behind d))
             else Some (Badge variant_default (mins_ahead (Math_abs d))))"

definition existingBet :: "BusData \<Rightarrow> World \<Rightarrow> Bet option" where
  "existingBet bus w =
     find (\<lambda>b. busId b = id_of bus \<and> \<not> resolved b) (bets (userStore w))"

definition canPlaceBet :: "parser \<Rightarrow> BusData \<Rightarrow> jsnum \<Rightarrow> World \<Rightarrow> bool" where
  "canPlaceBet P bus betAmount w =
     (isActiveBus P bus w \<and> existingBet bus w = None \<and>
      js_ge (balance (userStore w)) betAmount)"

text \<open>
  \<^verbatim>\<open>handlePlaceBet\<close> is a closure of one rendering: \<^verbatim>\<open>canPlaceBet\<close> is the constant computed
  when the component rendered, in the world \<open>rw\<close> of that moment, and the handler runs
  later, in the world \<open>w\<close> of the click. The store's \<^verbatim>\<open>placeBet\<close> is the parameter
  \<open>placeBet\<close>; each call is also recorded in \<open>placeBetCalls\<close>. The description of the
  notification is kept as its three interpolated values.
\<close>

definition handlePlaceBet ::
  "parser \<Rightarrow> (BetRequest \<Rightarrow> UserStore \<Rightarrow> UserStore) \<Rightarrow> BusData \<Rightarrow> jsnum \<Rightarrow> World
     \<Rightarrow> prediction \<Rightarrow> World \<Rightarrow> World" where
  "handlePlaceBet P placeBet bus betAmount rw pred w =
     (if \<not> canPlaceBet P bus betAmount rw then w
      else
        let req = \<lparr>busId = id_of bus, amount = betAmount, prediction = pred,
                   betRouteNumber = routeNumber bus\<rparr>;
            w1 = w\<lparr>userStore := placeBet req (userStore w),
                   placeBetCalls := placeBetCalls w @ [req]\<rparr>
        in w1\<lparr>toasts := toasts w1 @
                  [\<lparr>title = ''Bet Placed!'',
                    description = (betAmount, routeNumber bus, pred)\<rparr>]\<rparr>)"

section \<open>The delay estimate as the specification words it\<close>

text \<open>
  The specification gives the estimate by a formula over instants: the total journey is
  the scheduled arrival minus the scheduled departure, the elapsed time is now minus
  the scheduled departure, the journey proportion is their quotient, the raw delay is
  the expected departure minus the scheduled departure, and the result is the product
  of raw delay and proportion, converted from milliseconds to minutes and rounded.
  \<open>exactDelay\<close> is the value before the rounding, \<open>currentDelayMinutes\<close> the result; the
  arithmetic is exact.
\<close>

definition exactDelay :: "int \<Rightarrow> int \<Rightarrow> int \<Rightarrow> int \<Rightarrow> rat" where
  "exactDelay scheduledDep expectedDep scheduledArr now =
     (let totalJourney = of_int scheduledArr - of_int scheduledDep;
          elapsed = of_int now - of_int scheduledDep;
          journeyProportion = elapsed / totalJourney;
          rawDelay = of_int expectedDep - of_int scheduledDep
      in rawDelay * journeyProportion / 60000)"

definition currentDelayMinutes :: "int \<Rightarrow> int \<Rightarrow> int \<Rightarrow> int \<Rightarrow> int" where
  "currentDelayMinutes scheduledDep expectedDep scheduledArr now =
     round (exactDelay scheduledDep expectedDep scheduledArr now)"

text \<open>
  What the code computes from three time values and the clock, the journey time not
  zero: the same operations, each rounded to a double.
\<close>

definition roundedDelay :: "int \<Rightarrow> int \<Rightarrow> int \<Rightarrow> int \<Rightarrow> int" where
  "roundedDelay scheduledDep expectedDep scheduledArr now =
     (let totalJourney = double (of_int scheduledArr - of_int scheduledDep);
          elapsed = double (of_int now - of_int scheduledDep);
          journeyProportion = double (elapsed / totalJourney);
          rawDelay = double (of_int expectedDep - of_int scheduledDep)
      in round (double (double (rawDelay * journeyProportion) / 60000)))"

section \<open>Sample data\<close>

text \<open>
  The inputs of the worked examples: the time values of five instants of one morning,
  as \<^verbatim>\<open>Date\<close> gives them for these ISO-8601 strings; a bus scheduled from 10:00 to 11:00
  and expected to leave at 10:10; the same bus with all three timestamps at 10:00; a
  world with a balance of 10 and no wager, and a store whose \<^verbatim>\<open>placeBet\<close> takes the
  stake from the balance and records the wager.
\<close>

definition sampleDates :: parser where
  "sampleDates = map_of
     [(''2024-01-01T09:52:00Z'', 1704102720000),
      (''2024-01-01T10:00:00Z'', 1704103200000),
      (''2024-01-01T10:10:00Z'', 1704103800000),
      (''2024-01-01T10:30:00Z'', 1704105000000),
      (''2024-01-01T11:00:00Z'', 1704106800000)]"

definition sampleBus :: BusData where
  "sampleBus =
     \<lparr>id_of = ''bus-1'', routeNumber = ''42'',
      scheduledDeparture = Some ''2024-01-01T10:00:00Z'',
      expectedDeparture = Some ''2024-01-01T10:10:00Z'',
      scheduledArrival = ''2024-01-01T11:00:00Z'',
      origin = ''Depot'', destination = ''Harbour'', direction = ''outbound'',
      operator = ''City Bus'', vehicleId = ''V7'',
      recordedAt = ''2024-01-01T10:00:00Z''\<rparr>"

definition degenerateBus :: BusData where
  "degenerateBus =
     sampleBus\<lparr>expectedDeparture := Some ''2024-01-01T10:00:00Z'',
               scheduledArrival := ''2024-01-01T10:00:00Z''\<rparr>"



definition atTime :: "int \<Rightarrow> World" where
  "atTime t =
     \<lparr>clock = t, userStore = \<lparr>balance = Num 10, bets = []\<rparr>,
      placeBetCalls = [], toasts = []\<rparr>"

definition sampleBet :: Bet where
  "sampleBet =
     \<lparr>busId = ''bus-1'', amount = Num 2, prediction = late, betRouteNumber = ''42'',
      resolved = False\<rparr>"

definition samplePlaceBet :: "BetRequest \<Rightarrow> UserStore \<Rightarrow> UserStore" where
  "samplePlaceBet r st =
     \<lparr>balance = js_sub (balance st) (amount r),
      bets = bets st @
        [\<lparr>busId = busId r, amount = amount r, prediction = prediction r,
          betRouteNumber = betRouteNumber r, resolved = False\<rparr>]\<rparr>"

section \<open>Rounding to a double\<close>

lemma bitlen_powi_bounds:
  assumes "0 < n"
  shows "2 powi (bitlen n - 1) \<le> (of_int n :: rat)" and "(of_int n :: rat) < 2 powi (bitlen n)"
proof -
  from assms have b: "1 \<le> bitlen n"
    using bitlen_eq_zero_iff [of n] bitlen_nonneg [of n] by linarith
  from bitlen_bounds [OF assms]
  have lo: "2 ^ nat (bitlen n - 1) \<le> n" and hi: "n < 2 ^ nat (bitlen n)" by simp_all
  have "(2 :: rat) powi (bitlen n - 1) = of_int (2 ^ nat (bitlen n - 1))"
    using b by (simp add: power_int_nonneg_exp)
  also have "\<dots> \<le> of_int n" using lo by (simp only: of_int_le_iff)
  finally show "2 powi (bitlen n - 1) \<le> (of_int n :: rat)" .
  have "(of_int n :: rat) < of_int (2 ^ nat (bitlen n))" using hi by (simp only: of_int_less_iff)
  also have "\<dots> = 2 powi (bitlen n)" using b by (simp add: power_int_nonneg_exp)
  finally show "(of_int n :: rat) < 2 powi (bitlen n)" .
qed

lemma ilog2_bounds:
  assumes "x \<noteq> 0"
  shows "2 powi (ilog2 x) \<le> \<bar>x\<bar>" and "\<bar>x\<bar> < 2 powi (ilog2 x + 1)"
proof -
  obtain p q where pq: "quotient_of \<bar>x\<bar> = (p, q)" by (cases "quotient_of \<bar>x\<bar>")
  have q: "0 < q" using pq by (rule quotient_of_denom_pos)
  have x: "\<bar>x\<bar> = of_int p / of_int q" using pq by (rule quotient_of_div)
  have p: "0 < p"
  proof (rule ccontr)
    assume "\<not> 0 < p"
    then have "of_int p / of_int q \<le> (0 :: rat)"
      using q by (simp add: divide_le_0_iff)
    with x assms show False by simp
  qed
  let ?d = "bitlen p - bitlen q"
  note bp = bitlen_powi_bounds [OF p] and bq = bitlen_powi_bounds [OF q]
  have qpos: "(0 :: rat) < of_int q" and ppos: "(0 :: rat) < of_int p" using p q by simp_all
  have "\<bar>x\<bar> < 2 powi (bitlen p) / 2 powi (bitlen q - 1)"
  proof -
    have "of_int p / (of_int q :: rat) < 2 powi (bitlen p) / of_int q"
      using bp(2) qpos by (simp add: divide_strict_right_mono)
    also have "\<dots> \<le> 2 powi (bitlen p) / 2 powi (bitlen q - 1)"
      using bq(1) qpos by (intro divide_left_mono mult_pos_pos) simp_all
    finally show ?thesis by (simp add: x)
  qed
  then have up: "\<bar>x\<bar> < 2 powi (?d + 1)"
    by (simp add: power_int_diff [symmetric] algebra_simps)
  have "2 powi (bitlen p - 1) / 2 powi (bitlen q) \<le> \<bar>x\<bar>"
  proof -
    have "2 powi (bitlen p - 1) / 2 powi (bitlen q) \<le> (of_int p :: rat) / 2 powi (bitlen q)"
      using bp(1) by (simp add: divide_right_mono)
    also have "\<dots> \<le> of_int p / of_int q"
      using bq(2) ppos qpos by (intro divide_left_mono) simp_all
    finally show ?thesis by (simp add: x)
  qed
  then have lo: "2 powi (?d - 1) \<le> \<bar>x\<bar>"
    by (simp add: power_int_diff [symmetric] algebra_simps)
  show "2 powi (ilog2 x) \<le> \<bar>x\<bar>"
    using lo by (simp add: ilog2_def pq Let_def)
  show "\<bar>x\<bar> < 2 powi (ilog2 x + 1)"
    using up by (simp add: ilog2_def pq Let_def not_le)
qed

lemma round_half_even_of_int [simp]: "round_half_even (of_int n) = n"
  by (simp add: round_half_even_def)

lemma round_half_even_ge_floor: "\<lfloor>z\<rfloor> \<le> round_half_even z"
  by (simp add: round_half_even_def Let_def)

lemma round_half_even_le_floor: "round_half_even z \<le> \<lfloor>z\<rfloor> + 1"
  by (simp add: round_half_even_def Let_def)

lemma round_half_even_mono:
  assumes "z \<le> z'"
  shows "round_half_even z \<le> round_half_even z'"
proof (cases "\<lfloor>z\<rfloor> = \<lfloor>z'\<rfloor>")
  case True
  then show ?thesis
    using assms by (auto simp: round_half_even_def Let_def)
next
  case False
  then have "\<lfloor>z\<rfloor> + 1 \<le> \<lfloor>z'\<rfloor>"
    using floor_mono [OF assms] by linarith
  then show ?thesis
    using round_half_even_le_floor [of z] round_half_even_ge_floor [of z'] by linarith
qed

lemma round_half_even_minus: "round_half_even (- z) = - round_half_even z"
proof (cases "z = of_int \<lfloor>z\<rfloor>")
  case True
  then obtain n where "z = of_int n" ..
  then have "- z = of_int (- n)" by simp
  then show ?thesis using \<open>z = of_int n\<close> by (simp only: round_half_even_of_int)
next
  case False
  then have fl: "\<lfloor>- z\<rfloor> = - \<lfloor>z\<rfloor> - 1"
    by (metis ceiling_altdef ceiling_def minus_diff_eq diff_minus_eq_add minus_minus
        uminus_add_conv_diff add.commute)
  show ?thesis
    using False by (auto simp: round_half_even_def Let_def fl)
qed


lemma ilog2_minus [simp]: "ilog2 (- x) = ilog2 x"
  by (simp add: ilog2_def)

lemma double_zero [simp]: "double 0 = 0"
  by (simp add: double_def)

lemma double_minus: "double (- x) = - double x"
  by (simp add: double_def Let_def round_half_even_minus)

lemma two_powi_less_imp_less:
  assumes "(2 :: rat) powi m < 2 powi n"
  shows "m < n"
proof (rule ccontr)
  assume "\<not> m < n"
  then have "(2 :: rat) powi n \<le> 2 powi m"
    by (intro power_int_increasing) simp_all
  with assms show False by simp
qed

lemma ilog2_mono:
  assumes "0 < x" and "x \<le> y"
  shows "ilog2 x \<le> ilog2 y"
proof -
  have "2 powi (ilog2 x) \<le> x" using ilog2_bounds(1) [of x] assms by simp
  also have "x \<le> y" by fact
  also have "y < 2 powi (ilog2 y + 1)" using ilog2_bounds(2) [of y] assms by simp
  finally have "(2 :: rat) powi (ilog2 x) < 2 powi (ilog2 y + 1)" .
  then have "ilog2 x < ilog2 y + 1"
    by (rule two_powi_less_imp_less)
  then show ?thesis by simp
qed

lemma double_lower:
  assumes "0 < x"
  shows "2 powi (ilog2 x) \<le> double x"
proof -
  let ?q = "(2 :: rat) powi (ilog2 x - 52)"
  let ?m = "round_half_even (x / ?q)"
  have q: "0 < ?q" by simp
  have "2 powi (ilog2 x) \<le> x" using ilog2_bounds(1) [of x] assms by simp
  then have "2 powi (ilog2 x) / ?q \<le> x / ?q" using q by (simp add: divide_right_mono)
  moreover have scale: "2 powi (ilog2 x) / ?q = of_int (2 ^ 52)"
    by (simp add: power_int_diff [symmetric])
  ultimately have "of_int (2 ^ 52) \<le> x / ?q" by (simp only:)
  then have "round_half_even (of_int (2 ^ 52)) \<le> ?m" by (rule round_half_even_mono)
  then have "2 ^ 52 \<le> ?m" by (simp only: round_half_even_of_int)
  then have "(of_int (2 ^ 52) :: rat) \<le> of_int ?m" by (simp only: of_int_le_iff)
  then have "of_int (2 ^ 52) * ?q \<le> of_int ?m * ?q"
    using q by (simp only: mult_le_cancel_right_pos)
  moreover have "of_int (2 ^ 52) * ?q = 2 powi (ilog2 x)"
    using scale q by (simp only: nonzero_divide_eq_eq)
  moreover have "double x = of_int ?m * ?q" using assms by (simp add: double_def Let_def)
  ultimately show ?thesis by (simp only:)
qed

lemma double_upper:
  assumes "0 < x"
  shows "double x \<le> 2 powi (ilog2 x + 1)"
proof -
  let ?q = "(2 :: rat) powi (ilog2 x - 52)"
  let ?m = "round_half_even (x / ?q)"
  have q: "0 < ?q" by simp
  have "x \<le> 2 powi (ilog2 x + 1)" using ilog2_bounds(2) [of x] assms by simp
  then have "x / ?q \<le> 2 powi (ilog2 x + 1) / ?q" using q by (simp add: divide_right_mono)
  moreover have scale: "2 powi (ilog2 x + 1) / ?q = of_int (2 ^ 53)"
    by (simp add: power_int_diff [symmetric])
  ultimately have "x / ?q \<le> of_int (2 ^ 53)" by (simp only:)
  then have "?m \<le> round_half_even (of_int (2 ^ 53))" by (rule round_half_even_mono)
  then have "?m \<le> 2 ^ 53" by (simp only: round_half_even_of_int)
  then have "(of_int ?m :: rat) \<le> of_int (2 ^ 53)" by (simp only: of_int_le_iff)
  then have "of_int ?m * ?q \<le> of_int (2 ^ 53) * ?q"
    using q by (simp only: mult_le_cancel_right_pos)
  moreover have "of_int (2 ^ 53) * ?q = 2 powi (ilog2 x + 1)"
    using scale q by (simp only: nonzero_divide_eq_eq)
  moreover have "double x = of_int ?m * ?q" using assms by (simp add: double_def Let_def)
  ultimately show ?thesis by (simp only:)
qed

lemma double_pos: "0 < x \<Longrightarrow> 0 < double x"
  using double_lower [of x] zero_less_power_int [of "2 :: rat" "ilog2 x"] by linarith

lemma double_neg: "x < 0 \<Longrightarrow> double x < 0"
  using double_pos [of "- x"] by (simp add: double_minus)

lemma double_eq_0_iff [simp]: "double x = 0 \<longleftrightarrow> x = 0"
proof
  assume d: "double x = 0"
  show "x = 0"
  proof (rule ccontr)
    assume "x \<noteq> 0"
    then consider "0 < x" | "x < 0" by linarith
    then show False
    proof cases
      case 1
      from double_pos [OF this] d show False by simp
    next
      case 2
      from double_neg [OF this] d show False by simp
    qed
  qed
qed simp

lemma double_mono_pos:
  assumes "0 < x" and "x \<le> y"
  shows "double x \<le> double y"
proof (cases "ilog2 x = ilog2 y")
  case True
  let ?q = "(2 :: rat) powi (ilog2 y - 52)"
  have q: "0 < ?q" by simp
  have "x / ?q \<le> y / ?q" using assms q by (simp add: divide_right_mono)
  then have "round_half_even (x / ?q) \<le> round_half_even (y / ?q)"
    by (rule round_half_even_mono)
  then have "(of_int (round_half_even (x / ?q)) :: rat) * ?q
               \<le> of_int (round_half_even (y / ?q)) * ?q"
    using q by (simp only: mult_le_cancel_right_pos of_int_le_iff)
  then show ?thesis using assms True by (simp add: double_def Let_def)
next
  case False
  then have "ilog2 x + 1 \<le> ilog2 y" using ilog2_mono [OF assms] by simp
  then have "(2 :: rat) powi (ilog2 x + 1) \<le> 2 powi (ilog2 y)"
    by (intro power_int_increasing) simp_all
  moreover have "double x \<le> 2 powi (ilog2 x + 1)" using assms by (intro double_upper)
  moreover have "2 powi (ilog2 y) \<le> double y" using assms by (intro double_lower) simp
  ultimately show ?thesis by linarith
qed

lemma double_mono:
  assumes "x \<le> y"
  shows "double x \<le> double y"
proof -
  consider "0 < x" | "x \<le> 0" "0 \<le> y" | "y < 0" by linarith
  then show ?thesis
  proof cases
    case 1
    then show ?thesis using assms by (rule double_mono_pos)
  next
    case 2
    have "double x \<le> 0"
      using 2(1) double_neg [of x] by (cases "x = 0") simp_all
    moreover have "0 \<le> double y"
      using 2(2) double_pos [of y] by (cases "y = 0") simp_all
    ultimately show ?thesis by simp
  next
    case 3
    then have "0 < - y" and "- y \<le> - x" using assms by simp_all
    then have "double (- y) \<le> double (- x)" by (rule double_mono_pos)
    then show ?thesis by (simp add: double_minus)
  qed
qed

lemma double_exact_int:
  assumes "\<bar>k\<bar> < 2 ^ 53"
  shows "double (of_int k) = of_int k"
proof (cases "k = 0")
  case True
  then show ?thesis by simp
next
  case False
  let ?x = "of_int k :: rat"
  let ?e = "ilog2 ?x"
  have "2 powi ?e \<le> \<bar>?x\<bar>" using ilog2_bounds(1) [of ?x] False by simp
  also have "\<bar>?x\<bar> < of_int (2 ^ 53)" using assms by (simp only: of_int_abs [symmetric] of_int_less_iff)
  also have "(of_int (2 ^ 53) :: rat) = 2 powi 53" by simp
  finally have "?e < 53" by (rule two_powi_less_imp_less)
  then have m: "0 \<le> 52 - ?e" by simp
  have "?x / 2 powi (?e - 52) = ?x * 2 powi (52 - ?e)"
    by (simp add: power_int_diff field_simps)
  also have "\<dots> = of_int (k * 2 ^ nat (52 - ?e))"
    using m by (simp add: power_int_nonneg_exp)
  finally have "round_half_even (?x / 2 powi (?e - 52)) = k * 2 ^ nat (52 - ?e)"
    by (simp only: round_half_even_of_int)
  then have "double ?x = of_int (k * 2 ^ nat (52 - ?e)) * 2 powi (?e - 52)"
    using False by (simp add: double_def Let_def)
  also have "\<dots> = ?x * (2 powi (52 - ?e) * 2 powi (?e - 52))"
    using m by (simp add: power_int_nonneg_exp)
  also have "2 powi (52 - ?e) * 2 powi (?e - 52) = (1 :: rat)"
    by (simp add: power_int_add [symmetric])
  finally show ?thesis by simp
qed






lemma double_60000 [simp]: "double 60000 = 60000"
  using double_exact_int [of 60000] by simp

section \<open>Arithmetic and comparison of finite numbers\<close>

lemma js_sub_Num [simp]: "js_sub (Num x) (Num y) = Num (double (x - y))"
  by (simp add: js_sub_def js_add_def)

lemma js_mul_Num [simp]: "js_mul (Num x) (Num y) = Num (double (x * y))"
  by (simp add: js_mul_def)

lemma js_div_Num [simp]: "y \<noteq> 0 \<Longrightarrow> js_div (Num x) (Num y) = Num (double (x / y))"
  by (simp add: js_div_def)

lemma js_div_zero: "\<not> Number_isFinite (js_div (Num x) (Num 0))"
  by (simp add: js_div_def)

lemma js_mul_nonfinite: "\<not> Number_isFinite b \<Longrightarrow> \<not> Number_isFinite (js_mul a b)"
  by (cases a; cases b) (simp_all add: js_mul_def)

lemma js_div_nonfinite: "\<not> Number_isFinite a \<Longrightarrow> \<not> Number_isFinite (js_div a (Num y))"
  by (cases a) (simp_all add: js_div_def)

lemma Math_round_nonfinite: "\<not> Number_isFinite a \<Longrightarrow> \<not> Number_isFinite (Math_round a)"
  by (cases a) simp_all

section \<open>The delay of a record with valid timestamps\<close>

lemma getCurrentDelay_valid:
  assumes "expectedDeparture bus = Some e" and "e \<noteq> []" and "P e = Some te"
    and "scheduledDeparture bus = Some s" and "s \<noteq> []" and "P s = Some ts"
    and "P (scheduledArrival bus) = Some ta" and "ta \<noteq> ts"
  shows "getCurrentDelay P bus w = Some (Num (of_int (roundedDelay ts te ta (clock w))))"
  using assms
  by (simp add: getCurrentDelay_def roundedDelay_def truthy_def Date_getTime_def
        Date_now_def)

lemma roundedDelay_mono:
  assumes "ts < ta" and "ts \<le> te" and "n1 \<le> n2"
  shows "roundedDelay ts te ta n1 \<le> roundedDelay ts te ta n2"
proof -
  let ?total = "double (of_int ta - of_int ts)"
  let ?delay = "double (of_int te - of_int ts)"
  let ?elapsed = "\<lambda>n. double (of_int n - of_int ts)"
  let ?ratio = "\<lambda>n. double (?elapsed n / ?total)"
  let ?prod = "\<lambda>n. double (?delay * ?ratio n)"
  have total: "0 \<le> ?total"
    using assms(1) double_mono [of 0 "of_int ta - of_int ts"] by simp
  have delay: "0 \<le> ?delay"
    using assms(2) double_mono [of 0 "of_int te - of_int ts"] by simp
  have "?elapsed n1 \<le> ?elapsed n2"
    using assms(3) by (intro double_mono) simp
  then have "?elapsed n1 / ?total \<le> ?elapsed n2 / ?total"
    using total by (rule divide_right_mono)
  then have "?ratio n1 \<le> ?ratio n2" by (rule double_mono)
  then have "?delay * ?ratio n1 \<le> ?delay * ?ratio n2"
    using delay by (rule mult_left_mono)
  then have "?prod n1 \<le> ?prod n2" by (rule double_mono)
  then have "?prod n1 / 60000 \<le> ?prod n2 / 60000"
    by (rule divide_right_mono) simp
  then have "double (?prod n1 / 60000) \<le> double (?prod n2 / 60000)" by (rule double_mono)
  then have "round (double (?prod n1 / 60000)) \<le> round (double (?prod n2 / 60000))"
    by (rule round_mono)
  then show ?thesis by (simp add: roundedDelay_def)
qed

lemma getCurrentDelay_integral:
  assumes "getCurrentDelay P bus w = Some d"
  shows "d = NaN \<or> d = PosInf \<or> d = NegInf \<or> (\<exists>k. d = Num (of_int k))"
proof -
  from assms obtain x where "d = Math_round x"
    by (auto simp: getCurrentDelay_def Let_def split: if_splits)
  then show ?thesis by (cases x) auto
qed

lemma degenerate_delay_not_finite:
  assumes "expectedDeparture bus = Some e" and "e \<noteq> []" and "P e = Some te"
    and "scheduledDeparture bus = Some s" and "s \<noteq> []" and "P s = Some ts"
    and "P (scheduledArrival bus) = Some ts"
  shows "\<exists>r. getCurrentDelay P bus w = Some r \<and> \<not> Number_isFinite r"
proof -
  let ?ratio = "js_div (Num (double (of_int (clock w) - of_int ts))) (Num 0)"
  let ?r = "Math_round (js_div (js_mul (Num (double (of_int te - of_int ts))) ?ratio)
                               (Num 60000))"
  have "getCurrentDelay P bus w = Some ?r"
    using assms
    by (simp add: getCurrentDelay_def truthy_def Date_getTime_def Date_now_def)
  moreover have "\<not> Number_isFinite ?r"
    by (intro Math_round_nonfinite js_div_nonfinite js_mul_nonfinite js_div_zero)
  ultimately show ?thesis by blast
qed

section \<open>The sample data evaluated\<close>

lemma sample_delays:
  "getCurrentDelay sampleDates (sampleBus\<lparr>expectedDeparture := None\<rparr>)
     (atTime 1704105000000) = None"
  "getCurrentDelay sampleDates sampleBus (atTime 1704103200000) = Some (Num 0)"
  "getCurrentDelay sampleDates sampleBus (atTime 1704105000000) = Some (Num 5)"
  "getCurrentDelay sampleDates
     (sampleBus\<lparr>expectedDeparture := Some ''2024-01-01T09:52:00Z''\<rparr>)
     (atTime 1704106800000) = Some (Num (- 8))"
  by code_simp+

text \<open>
  The rounding of the operations shows in the result. With a raw delay of 3.5 minutes, a
  journey of 14 minutes and 34 minutes elapsed, the exact value of the formula is 8.5,
  which rounds to 9; the quotient 17/7 is not a double, the product computed from its
  rounding falls below 8.5, and the code's result is 8.
\<close>

lemma rounding_at_a_tie:
  "roundedDelay 0 210000 840000 2040000 = 8 \<and>
   currentDelayMinutes 0 210000 840000 2040000 = 9"
  by code_simp

section \<open>The activity window\<close>

text \<open>
  C1. A bus is active exactly when the clock lies between its effective departure and
  its scheduled arrival, both ends included. The effective departure is the expected
  departure when that is present (a non-empty string), the scheduled departure
  otherwise.
\<close>

theorem isActiveBus_window:
  "(expectedDeparture bus = Some e \<and> e \<noteq> [] \<and> P e = Some te \<and>
    P (scheduledArrival bus) = Some ta
      \<longrightarrow> isActiveBus P bus w = (te \<le> clock w \<and> clock w \<le> ta)) \<and>
   ((expectedDeparture bus = None \<or> expectedDeparture bus = Some []) \<and>
    scheduledDeparture bus = Some s \<and> P s = Some ts \<and>
    P (scheduledArrival bus) = Some ta
      \<longrightarrow> isActiveBus P bus w = (ts \<le> clock w \<and> clock w \<le> ta))"
  by (auto simp: isActiveBus_def departureTime_def js_or_def truthy_def
                 Date_getTime_def Date_now_def)

text \<open>
  The sample bus, expected at 10:10, is active at 10:10 and not one millisecond before;
  without an expected departure it is active at 11:00 and not one millisecond after.
\<close>

theorem isActiveBus_window_witness:
  "isActiveBus sampleDates sampleBus (atTime 1704103800000) \<and>
   \<not> isActiveBus sampleDates sampleBus (atTime 1704103799999) \<and>
   isActiveBus sampleDates (sampleBus\<lparr>expectedDeparture := None\<rparr>) (atTime 1704106800000) \<and>
   \<not> isActiveBus sampleDates (sampleBus\<lparr>expectedDeparture := None\<rparr>) (atTime 1704106800001)"
  using
    isActiveBus_window [of sampleBus "''2024-01-01T10:10:00Z''" sampleDates
      1704103800000 1704106800000 "atTime 1704103800000"]
    isActiveBus_window [of sampleBus "''2024-01-01T10:10:00Z''" sampleDates
      1704103800000 1704106800000 "atTime 1704103799999"]
    isActiveBus_window [of "sampleBus\<lparr>expectedDeparture := None\<rparr>" _ sampleDates _
      1704106800000 "atTime 1704106800000" "''2024-01-01T10:00:00Z''" 1704103200000]
    isActiveBus_window [of "sampleBus\<lparr>expectedDeparture := None\<rparr>" _ sampleDates _
      1704106800000 "atTime 1704106800001" "''2024-01-01T10:00:00Z''" 1704103200000]
  by (simp_all add: sampleBus_def sampleDates_def atTime_def)

section \<open>The delay estimate\<close>





text \<open>
  C3. The claim is that a record whose scheduled arrival equals its scheduled departure
  gets no delay. The code divides by the zero journey time: the degenerate sample bus,
  all three timestamps at 10:00, is active at 10:00 and its delay then is NaN, which
  \<^verbatim>\<open>renderDelay\<close> shows as a number of minutes ahead; with the expected departure at
  10:10 and the clock at 10:30 the delay is plus infinity. The lemma
  \<open>degenerate_delay_not_finite\<close> above has the general case.
\<close>

theorem getCurrentDelay_degenerate_NaN:
  "isActiveBus sampleDates degenerateBus (atTime 1704103200000) \<and>
   getCurrentDelay sampleDates degenerateBus (atTime 1704103200000) = Some NaN \<and>
   renderDelay sampleDates degenerateBus (atTime 1704103200000) =
     Some (Badge variant_default (mins_ahead NaN)) \<and>
   getCurrentDelay sampleDates
     (sampleBus\<lparr>scheduledArrival := ''2024-01-01T10:00:00Z''\<rparr>)
     (atTime 1704105000000) = Some PosInf"
  by code_simp

text \<open>So the delay of the degenerate record is a number, and not a finite one.\<close>

theorem getCurrentDelay_degenerate_NaN_witness:
  "getCurrentDelay sampleDates degenerateBus (atTime 1704103200000) \<noteq> None \<and>
   (\<exists>r. getCurrentDelay sampleDates degenerateBus (atTime 1704103200000) = Some r \<and>
        \<not> Number_isFinite r)"
  using getCurrentDelay_degenerate_NaN by simp

text \<open>
  C4. Without an expected departure, or without a scheduled departure,
  \<^verbatim>\<open>getCurrentDelay\<close> returns null: a value, no exception.
\<close>

theorem getCurrentDelay_absent:
  "expectedDeparture bus = None \<or> scheduledDeparture bus = None
     \<Longrightarrow> getCurrentDelay P bus w = None"
  by (auto simp: getCurrentDelay_def truthy_def)

theorem getCurrentDelay_absent_witness:
  "getCurrentDelay sampleDates (sampleBus\<lparr>expectedDeparture := None\<rparr>)
     (atTime 1704105000000) = None \<and>
   getCurrentDelay sampleDates (sampleBus\<lparr>scheduledDeparture := None\<rparr>)
     (atTime 1704105000000) = None"
  using getCurrentDelay_absent [of "sampleBus\<lparr>expectedDeparture := None\<rparr>"
          sampleDates "atTime 1704105000000"]
        getCurrentDelay_absent [of "sampleBus\<lparr>scheduledDeparture := None\<rparr>"
          sampleDates "atTime 1704105000000"]
  by (simp add: sampleBus_def)

section \<open>The classification of a delay\<close>

lemma not_small:
  assumes "d = NaN \<or> d = PosInf \<or> d = NegInf \<or> (\<exists>k. d = Num (of_int k))"
    and "js_gt d (Num 0) \<or> js_lt d (Num 0)"
  shows "\<not> js_lt (Math_abs d) (Num 1)"
  using assms by (auto simp: js_gt_def)

lemma negative_not_positive: "js_lt d (Num 0) \<Longrightarrow> \<not> js_gt d (Num 0)"
  by (cases d) (auto simp: js_gt_def)

text \<open>
  C5. \<^verbatim>\<open>renderDelay\<close> shows nothing for an absent delay, "On Time" for a delay of
  magnitude below one minute, the delay as minutes behind when it is positive, and its
  magnitude as minutes ahead when it is negative.
\<close>

theorem renderDelay_classification:
  "(getCurrentDelay P bus w = None \<longrightarrow> renderDelay P bus w = None) \<and>
   (getCurrentDelay P bus w = Some d \<and> js_lt (Math_abs d) (Num 1)
      \<longrightarrow> renderDelay P bus w = Some (Badge variant_outline On_Time)) \<and>
   (getCurrentDelay P bus w = Some d \<and> js_gt d (Num 0)
      \<longrightarrow> renderDelay P bus w = Some (Badge variant_destructive (mins_behind d))) \<and>
   (getCurrentDelay P bus w = Some d \<and> js_lt d (Num 0)
      \<longrightarrow> renderDelay P bus w = Some (Badge variant_default (mins_ahead (Math_abs d))))"
proof (intro conjI impI)
  assume "getCurrentDelay P bus w = None"
  then show "renderDelay P bus w = None" by (simp add: renderDelay_def)
next
  assume "getCurrentDelay P bus w = Some d \<and> js_lt (Math_abs d) (Num 1)"
  then show "renderDelay P bus w = Some (Badge variant_outline On_Time)"
    by (simp add: renderDelay_def)
next
  assume a: "getCurrentDelay P bus w = Some d \<and> js_gt d (Num 0)"
  then have "\<not> js_lt (Math_abs d) (Num 1)"
    using getCurrentDelay_integral not_small by blast
  with a show "renderDelay P bus w = Some (Badge variant_destructive (mins_behind d))"
    by (simp add: renderDelay_def)
next
  assume a: "getCurrentDelay P bus w = Some d \<and> js_lt d (Num 0)"
  then have "\<not> js_lt (Math_abs d) (Num 1)"
    using getCurrentDelay_integral not_small by blast
  moreover from a have "\<not> js_gt d (Num 0)" by (simp add: negative_not_positive)
  ultimately show
    "renderDelay P bus w = Some (Badge variant_default (mins_ahead (Math_abs d)))"
    using a by (simp add: renderDelay_def)
qed

text \<open>
  The four cases on the sample bus: no expected departure; the clock at the scheduled
  departure (delay 0); the clock at 10:30 (5 minutes behind); and, expected 8 minutes
  before the scheduled departure with the clock at the scheduled arrival, 8 minutes
  ahead.
\<close>

theorem renderDelay_classification_witness:
  "renderDelay sampleDates (sampleBus\<lparr>expectedDeparture := None\<rparr>)
     (atTime 1704105000000) = None \<and>
   renderDelay sampleDates sampleBus (atTime 1704103200000) =
     Some (Badge variant_outline On_Time) \<and>
   renderDelay sampleDates sampleBus (atTime 1704105000000) =
     Some (Badge variant_destructive (mins_behind (Num 5))) \<and>
   renderDelay sampleDates
     (sampleBus\<lparr>expectedDeparture := Some ''2024-01-01T09:52:00Z''\<rparr>)
     (atTime 1704106800000) = Some (Badge variant_default (mins_ahead (Num 8)))"
  using
    renderDelay_classification [of sampleDates "sampleBus\<lparr>expectedDeparture := None\<rparr>"
      "atTime 1704105000000"]
    renderDelay_classification [of sampleDates sampleBus "atTime 1704103200000" "Num 0"]
    renderDelay_classification [of sampleDates sampleBus "atTime 1704105000000" "Num 5"]
    renderDelay_classification [of sampleDates
      "sampleBus\<lparr>expectedDeparture := Some ''2024-01-01T09:52:00Z''\<rparr>"
      "atTime 1704106800000" "Num (- 8)"]
  by (simp add: sample_delays js_gt_def)

section \<open>Placing a bet\<close>

text \<open>
  C6. A bet can be placed exactly when the bus is active, the store holds no unresolved
  bet on this bus, and the balance is at least the stake.
\<close>

theorem canPlaceBet_iff:
  "canPlaceBet P bus betAmount w \<longleftrightarrow>
     isActiveBus P bus w \<and>
     (\<forall>b \<in> set (bets (userStore w)). busId b = id_of bus \<longrightarrow> resolved b) \<and>
     js_le betAmount (balance (userStore w))"
  by (auto simp: canPlaceBet_def existingBet_def find_None_iff js_ge_def)

text \<open>
  At 10:30 with a balance of 10: a stake of 10 is accepted and a stake of 11 is not; at
  10:00, before the expected departure, nothing is; an unresolved bet on the bus blocks
  a second one, a resolved bet does not.
\<close>

theorem canPlaceBet_iff_witness:
  "canPlaceBet sampleDates sampleBus (Num 10) (atTime 1704105000000) \<and>
   \<not> canPlaceBet sampleDates sampleBus (Num 11) (atTime 1704105000000) \<and>
   \<not> canPlaceBet sampleDates sampleBus (Num 10) (atTime 1704103200000) \<and>
   \<not> canPlaceBet sampleDates sampleBus (Num 1)
       ((atTime 1704105000000)\<lparr>userStore := \<lparr>balance = Num 10, bets = [sampleBet]\<rparr>\<rparr>) \<and>
   canPlaceBet sampleDates sampleBus (Num 1)
       ((atTime 1704105000000)
          \<lparr>userStore := \<lparr>balance = Num 10, bets = [sampleBet\<lparr>resolved := True\<rparr>]\<rparr>\<rparr>)"
  using
    canPlaceBet_iff [of sampleDates sampleBus "Num 10" "atTime 1704105000000"]
    canPlaceBet_iff [of sampleDates sampleBus "Num 11" "atTime 1704105000000"]
    canPlaceBet_iff [of sampleDates sampleBus "Num 10" "atTime 1704103200000"]
    canPlaceBet_iff [of sampleDates sampleBus "Num 1"
      "(atTime 1704105000000)\<lparr>userStore := \<lparr>balance = Num 10, bets = [sampleBet]\<rparr>\<rparr>"]
    canPlaceBet_iff [of sampleDates sampleBus "Num 1"
      "(atTime 1704105000000)
          \<lparr>userStore := \<lparr>balance = Num 10, bets = [sampleBet\<lparr>resolved := True\<rparr>]\<rparr>\<rparr>"]
  by (simp add: isActiveBus_def departureTime_def js_or_def truthy_def Date_getTime_def
        Date_now_def sampleBus_def sampleDates_def atTime_def sampleBet_def)

text \<open>
  C8. When the rendering found the bet not placeable (the bus not active, an unresolved
  bet on it in the store, or the balance below the stake), the handler returns the
  world as it is, for either prediction: the store is unchanged, \<^verbatim>\<open>placeBet\<close> is not
  called and no notification is emitted.
\<close>

theorem handlePlaceBet_ineligible:
  "\<not> isActiveBus P bus rw \<or>
   (\<exists>b \<in> set (bets (userStore rw)). busId b = id_of bus \<and> \<not> resolved b) \<or>
   \<not> js_ge (balance (userStore rw)) betAmount
     \<Longrightarrow> \<not> canPlaceBet P bus betAmount rw \<and>
         handlePlaceBet P placeBet bus betAmount rw pred w = w"
  by (auto simp: handlePlaceBet_def canPlaceBet_def existingBet_def find_None_iff)

text \<open>When the bet is placeable the handler does call the store and notify.\<close>

lemma handlePlaceBet_eligible:
  "canPlaceBet P bus betAmount rw \<Longrightarrow>
     handlePlaceBet P placeBet bus betAmount rw pred w =
       w\<lparr>userStore := placeBet \<lparr>busId = id_of bus, amount = betAmount, prediction = pred,
                                betRouteNumber = routeNumber bus\<rparr> (userStore w),
         placeBetCalls := placeBetCalls w @
           [\<lparr>busId = id_of bus, amount = betAmount, prediction = pred,
             betRouteNumber = routeNumber bus\<rparr>],
         toasts := toasts w @
           [\<lparr>title = ''Bet Placed!'', description = (betAmount, routeNumber bus, pred)\<rparr>]\<rparr>"
  by (simp add: handlePlaceBet_def Let_def)

theorem handlePlaceBet_ineligible_witness:
  "handlePlaceBet sampleDates samplePlaceBet sampleBus (Num 1) (atTime 1704103200000) early
     (atTime 1704105000000) = atTime 1704105000000 \<and>
   handlePlaceBet sampleDates samplePlaceBet sampleBus (Num 1)
     ((atTime 1704105000000)\<lparr>userStore := \<lparr>balance = Num 10, bets = [sampleBet]\<rparr>\<rparr>) late
     (atTime 1704105000000) = atTime 1704105000000 \<and>
   handlePlaceBet sampleDates samplePlaceBet sampleBus (Num 11) (atTime 1704105000000) early
     (atTime 1704105000000) = atTime 1704105000000"
  using
    handlePlaceBet_ineligible [of sampleDates sampleBus "atTime 1704103200000" "Num 1"
      samplePlaceBet early "atTime 1704105000000"]
    handlePlaceBet_ineligible [of sampleDates sampleBus
      "(atTime 1704105000000)\<lparr>userStore := \<lparr>balance = Num 10, bets = [sampleBet]\<rparr>\<rparr>" "Num 1"
      samplePlaceBet late "atTime 1704105000000"]
    handlePlaceBet_ineligible [of sampleDates sampleBus "atTime 1704105000000" "Num 11"
      samplePlaceBet early "atTime 1704105000000"]
  by (simp add: isActiveBus_def departureTime_def js_or_def truthy_def Date_getTime_def
        Date_now_def js_ge_def sampleBus_def sampleDates_def atTime_def sampleBet_def)

section \<open>The delay grows with the clock\<close>

text \<open>
  C9. For a record that arrives after its scheduled departure and is expected to leave
  no earlier than scheduled, a later clock never gives a smaller delay.
\<close>

theorem getCurrentDelay_mono:
  assumes "expectedDeparture bus = Some e" and "e \<noteq> []" and "P e = Some te"
    and "scheduledDeparture bus = Some s" and "s \<noteq> []" and "P s = Some ts"
    and "P (scheduledArrival bus) = Some ta"
    and "ts < ta" and "ts \<le> te" and "clock w1 \<le> clock w2"
  shows "\<exists>k1 k2. getCurrentDelay P bus w1 = Some (Num (of_int k1)) \<and>
                 getCurrentDelay P bus w2 = Some (Num (of_int k2)) \<and> k1 \<le> k2"
proof -
  have ne: "ta \<noteq> ts" using assms(8) by simp
  have "roundedDelay ts te ta (clock w1) \<le> roundedDelay ts te ta (clock w2)"
    using assms(8-10) by (rule roundedDelay_mono)
  then show ?thesis
    using getCurrentDelay_valid [OF assms(1-7) ne, of w1]
          getCurrentDelay_valid [OF assms(1-7) ne, of w2]
    by blast
qed

theorem getCurrentDelay_mono_witness:
  "\<exists>k1 k2. getCurrentDelay sampleDates sampleBus (atTime 1704103200000) =
              Some (Num (of_int k1)) \<and>
           getCurrentDelay sampleDates sampleBus (atTime 1704105000000) =
              Some (Num (of_int k2)) \<and> k1 \<le> k2"
  by (rule getCurrentDelay_mono [of sampleBus "''2024-01-01T10:10:00Z''" sampleDates
        1704103800000 "''2024-01-01T10:00:00Z''" 1704103200000 1704106800000])
     (simp_all add: sampleBus_def sampleDates_def atTime_def)

section \<open>An empty expected departure\<close>

text \<open>
  C10. An expected departure that is the empty string counts as absent in both
  derivations: \<^verbatim>\<open>getCurrentDelay\<close> returns null, and the departure that \<^verbatim>\<open>isActiveBus\<close>
  uses is the scheduled one, so the bus is active exactly when it would be without the
  field.
\<close>

theorem empty_expectedDeparture:
  "expectedDeparture bus = Some [] \<Longrightarrow>
     getCurrentDelay P bus w = None \<and>
     departureTime bus = scheduledDeparture bus \<and>
     isActiveBus P bus w = isActiveBus P (bus\<lparr>expectedDeparture := None\<rparr>) w"
  by (simp add: getCurrentDelay_def isActiveBus_def departureTime_def js_or_def truthy_def)

theorem empty_expectedDeparture_witness:
  "getCurrentDelay sampleDates (sampleBus\<lparr>expectedDeparture := Some []\<rparr>)
     (atTime 1704103200000) = None \<and>
   departureTime (sampleBus\<lparr>expectedDeparture := Some []\<rparr>) = Some ''2024-01-01T10:00:00Z'' \<and>
   isActiveBus sampleDates (sampleBus\<lparr>expectedDeparture := Some []\<rparr>) (atTime 1704103200000)"
  using empty_expectedDeparture [of "sampleBus\<lparr>expectedDeparture := Some []\<rparr>" sampleDates
      "atTime 1704103200000"]
  by (simp add: isActiveBus_def departureTime_def js_or_def truthy_def Date_getTime_def
        Date_now_def sampleBus_def sampleDates_def atTime_def)

end
